theory Spec2Isabelle
  imports Complex_Main "HOL-Library.Sublist"
begin

section \<open>The marker board: data model\<close>

text \<open>
  The application is one React component, \<^verbatim>\<open>App\<close>. Its \<^verbatim>\<open>useState\<close> cells, the
  browser's \<^verbatim>\<open>sessionStorage\<close> and the calls it makes to the outside (alerts, the
  reverse-geocode request, the remote store) are collected in one record that every
  handler takes and returns.

  JavaScript numbers (coordinates, JSON numbers) are only stored, compared with zero and
  passed on; they are modelled as \<^typ>\<open>real\<close>. A value that may be \<^verbatim>\<open>null\<close> or
  \<^verbatim>\<open>undefined\<close> is an \<^typ>\<open>'a option\<close>, with \<^term>\<open>None\<close> for both.
\<close>

type_synonym pg_error = string

text \<open>A row of table \<^verbatim>\<open>markers\<close>: \<^verbatim>\<open>id, lat, lng, name, message, country\<close>.\<close>

record marker =
  m_id :: int
  m_lat :: real
  m_lng :: real
  m_name :: string
  m_message :: string
  m_country :: "string option"

text \<open>\<^verbatim>\<open>e.latlng\<close> of a map click, and the value of \<^verbatim>\<open>clickedPos\<close>.\<close>

record latlng =
  lat :: real
  lng :: real

text \<open>What \<^verbatim>\<open>JSON.parse\<close> can return. An object keeps its members in source order.\<close>

datatype json =
    JNull
  | JBool bool
  | JNum real
  | JStr string
  | JArr "json list"
  | JObj "(string \<times> json) list"

text \<open>The object literal passed to \<^verbatim>\<open>supabase.from('markers').insert\<close>.\<close>

record insert_row =
  ins_lat :: real
  ins_lng :: real
  ins_name :: string
  ins_message :: string
  ins_country :: json

text \<open>Everything the component does to the outside world, in the order it does it.\<close>

datatype effect =
    Alert string
  | ConsoleError pg_error
  | SelectAll
  | Subscribe
  | RemoveChannel
  | ReverseGeocode real real
  | InsertRow insert_row

record app =
  markers :: "marker list"
  filteredMarkers :: "marker list"
  clickedPos :: "latlng option"
  country :: json
  name :: string
  message :: string
  selectedCountry :: string
  countries :: "string option list"
  sessionStorage :: "string \<rightharpoonup> string"
  out :: "effect list"

text \<open>
  The initial values of the \<^verbatim>\<open>useState\<close> cells. The session storage outlives a
  reload of the page, so it is a parameter.
\<close>

definition init :: "(string \<rightharpoonup> string) \<Rightarrow> app" where
  "init ss = \<lparr> markers = [], filteredMarkers = [], clickedPos = None,
              country = JStr '''', name = '''', message = '''',
              selectedCountry = ''all'', countries = [],
              sessionStorage = ss, out = [] \<rparr>"

section \<open>JavaScript library functions used by the component\<close>

text \<open>
  \<^verbatim>\<open>Array.prototype.filter\<close>: visits the elements from index 0 upwards and pushes the
  accepted ones onto a fresh array.
\<close>

fun js_filter_loop :: "('a \<Rightarrow> bool) \<Rightarrow> 'a list \<Rightarrow> 'a list \<Rightarrow> 'a list" where
  "js_filter_loop p [] acc = acc"
| "js_filter_loop p (x # xs) acc = js_filter_loop p xs (if p x then acc @ [x] else acc)"

definition js_filter :: "('a \<Rightarrow> bool) \<Rightarrow> 'a list \<Rightarrow> 'a list" where
  "js_filter p xs = js_filter_loop p xs []"

text \<open>
  \<^verbatim>\<open>[...new Set(xs)]\<close>: the constructor adds the elements in order, an element already
  present is not added again, and the spread lists the set in insertion order.
\<close>

fun set_add_all :: "'a list \<Rightarrow> 'a list \<Rightarrow> 'a list" where
  "set_add_all [] acc = acc"
| "set_add_all (x # xs) acc = set_add_all xs (if x \<in> set acc then acc else acc @ [x])"

definition spread_new_Set :: "'a list \<Rightarrow> 'a list" where
  "spread_new_Set xs = set_add_all xs []"

text \<open>\<^verbatim>\<open>Boolean(v)\<close> on a string that may be null or undefined.\<close>

fun Boolean_str :: "string option \<Rightarrow> bool" where
  "Boolean_str None = False"
| "Boolean_str (Some s) = (s \<noteq> '''')"

text \<open>\<^verbatim>\<open>Boolean(v)\<close> on a parsed JSON value; \<^term>\<open>None\<close> is \<^verbatim>\<open>undefined\<close>.\<close>

fun Boolean_json :: "json option \<Rightarrow> bool" where
  "Boolean_json None = False"
| "Boolean_json (Some JNull) = False"
| "Boolean_json (Some (JBool b)) = b"
| "Boolean_json (Some (JNum n)) = (n \<noteq> 0)"
| "Boolean_json (Some (JStr s)) = (s \<noteq> '''')"
| "Boolean_json (Some (JArr xs)) = True"
| "Boolean_json (Some (JObj kvs)) = True"

text \<open>
  \<^verbatim>\<open>v?.k\<close> for a key that is no built-in property (\<^verbatim>\<open>address\<close>, \<^verbatim>\<open>country\<close>):
  \<^verbatim>\<open>undefined\<close> on null and undefined, the member on an object (the last one when the
  text repeated the key), \<^verbatim>\<open>undefined\<close> on everything else.
\<close>

fun opt_chain :: "json option \<Rightarrow> string \<Rightarrow> json option" where
  "opt_chain (Some (JObj kvs)) k = map_of (rev kvs) k"
| "opt_chain v k = None"

text \<open>\<^verbatim>\<open>v || d\<close>.\<close>

definition js_or :: "json option \<Rightarrow> json \<Rightarrow> json" where
  "js_or v d = (case v of None \<Rightarrow> d | Some x \<Rightarrow> if Boolean_json (Some x) then x else d)"

section \<open>Mounting, the initial load and the live-update feed\<close>

text \<open>
  The first \<^verbatim>\<open>useEffect\<close> (empty dependency list): start \<^verbatim>\<open>fetchMarkers\<close> and
  subscribe to the insert feed.
\<close>

definition mount :: "app \<Rightarrow> app" where
  "mount w = w\<lparr>out := out w @ [SelectAll, Subscribe]\<rparr>"

definition unmount :: "app \<Rightarrow> app" where
  "unmount w = w\<lparr>out := out w @ [RemoveChannel]\<rparr>"

text \<open>
  \<^verbatim>\<open>fetchMarkers\<close> after its \<^verbatim>\<open>await\<close>: \<^verbatim>\<open>if (!error) setMarkers(data)\<close>. The
  store answers with an error or with the rows.
\<close>

definition fetchMarkers_resume :: "app \<Rightarrow> pg_error + marker list \<Rightarrow> app" where
  "fetchMarkers_resume w r = (case r of Inl error \<Rightarrow> w | Inr data \<Rightarrow> w\<lparr>markers := data\<rparr>)"

text \<open>The feed callback: \<^verbatim>\<open>setMarkers((prev) => [...prev, payload.new])\<close>.\<close>

definition on_insert :: "app \<Rightarrow> marker \<Rightarrow> app" where
  "on_insert w payload_new = w\<lparr>markers := markers w @ [payload_new]\<rparr>"

section \<open>The country filter\<close>

definition uniqueCountries :: "marker list \<Rightarrow> string option list" where
  "uniqueCountries ms = spread_new_Set (js_filter Boolean_str (map m_country ms))"

text \<open>
  The second \<^verbatim>\<open>useEffect\<close>, with dependencies \<^verbatim>\<open>[markers, selectedCountry]\<close>.
  \<^verbatim>\<open>m.country === selectedCountry\<close> holds when the country is a string equal to the
  selection.
\<close>

definition filter_effect :: "app \<Rightarrow> app" where
  "filter_effect w =
     (let w1 = w\<lparr>countries := uniqueCountries (markers w)\<rparr>;
          filtered = markers w1;
          filtered = (if selectedCountry w1 \<noteq> ''all''
                      then js_filter (\<lambda>m. m_country m = Some (selectedCountry w1)) filtered
                      else filtered)
      in w1\<lparr>filteredMarkers := filtered\<rparr>)"

section \<open>The placement flow\<close>

text \<open>\<^verbatim>\<open>sessionStorage.getItem('hasPlacedMark')\<close> used as a condition.\<close>

definition hasPlacedMark :: "app \<Rightarrow> bool" where
  "hasPlacedMark w = Boolean_str (sessionStorage w ''hasPlacedMark'')"

text \<open>The render condition of the modal form: \<^verbatim>\<open>clickedPos && (...)\<close>.\<close>

definition modal_open :: "app \<Rightarrow> bool" where
  "modal_open w = (clickedPos w \<noteq> None)"

text \<open>
  \<^verbatim>\<open>handleMapClick\<close> runs up to its \<^verbatim>\<open>await fetch\<close> and continues when the request
  settles. The first part either returns at the guard or is left waiting.
\<close>

datatype click_status = ClickRefused | ClickAwaitingGeocode

definition handleMapClick_start :: "app \<Rightarrow> latlng \<Rightarrow> click_status \<times> app" where
  "handleMapClick_start w e =
     (if hasPlacedMark w
      then (ClickRefused, w\<lparr>out := out w @ [Alert ''You already placed a mark in this session'']\<rparr>)
      else (ClickAwaitingGeocode,
            w\<lparr>clickedPos := Some \<lparr>lat = lat e, lng = lng e\<rparr>,
              out := out w @ [ReverseGeocode (lat e) (lng e)]\<rparr>))"

text \<open>
  How the request settles: \<^verbatim>\<open>fetch\<close> rejects, \<^verbatim>\<open>res.json()\<close> rejects (the body is
  no JSON), or the body parses.
\<close>

datatype geocode_response = FetchRejected | JsonRejected | JsonBody json

text \<open>\<^verbatim>\<open>data?.address?.country\<close>.\<close>

definition address_country :: "json \<Rightarrow> json option" where
  "address_country data = opt_chain (opt_chain (Some data) ''address'') ''country''"

text \<open>
  The argument of \<^verbatim>\<open>setCountry\<close>: \<^verbatim>\<open>data?.address?.country || 'Unknown'\<close> in the
  \<^verbatim>\<open>try\<close> block, \<^verbatim>\<open>'Unknown'\<close> in the \<^verbatim>\<open>catch\<close> block.
\<close>

definition resolved_country :: "geocode_response \<Rightarrow> json" where
  "resolved_country r =
     (case r of
        FetchRejected \<Rightarrow> JStr ''Unknown''
      | JsonRejected \<Rightarrow> JStr ''Unknown''
      | JsonBody data \<Rightarrow> js_or (address_country data) (JStr ''Unknown''))"

definition handleMapClick_resume :: "app \<Rightarrow> geocode_response \<Rightarrow> app" where
  "handleMapClick_resume w r = w\<lparr>country := resolved_country r\<rparr>"

text \<open>
  \<^verbatim>\<open>handleSubmit\<close> up to its \<^verbatim>\<open>await\<close>. Reading \<^verbatim>\<open>clickedPos.lat\<close> of a null
  \<^verbatim>\<open>clickedPos\<close> throws before anything is sent.
\<close>

datatype submit_status = SubmitInvalid | SubmitTypeError | SubmitAwaitingInsert

definition handleSubmit_start :: "app \<Rightarrow> submit_status \<times> app" where
  "handleSubmit_start w =
     (if name w = '''' \<or> message w = ''''
      then (SubmitInvalid, w\<lparr>out := out w @ [Alert ''Name and message required'']\<rparr>)
      else (case clickedPos w of
              None \<Rightarrow> (SubmitTypeError, w)
            | Some p \<Rightarrow>
                (SubmitAwaitingInsert,
                 w\<lparr>out := out w @
                     [InsertRow \<lparr>ins_lat = lat p, ins_lng = lng p, ins_name = name w,
                                 ins_message = message w, ins_country = country w\<rparr>]\<rparr>)))"

text \<open>\<^verbatim>\<open>handleSubmit\<close> after the insert has answered with \<^verbatim>\<open>{ error }\<close>.\<close>

definition handleSubmit_resume :: "app \<Rightarrow> pg_error option \<Rightarrow> app" where
  "handleSubmit_resume w error =
     (case error of
        Some err \<Rightarrow> w\<lparr>out := out w @ [ConsoleError err, Alert ''Insert failed'']\<rparr>
      | None \<Rightarrow>
          w\<lparr>sessionStorage := (sessionStorage w)(''hasPlacedMark'' \<mapsto> ''true''),
            clickedPos := None, name := '''', message := ''''\<rparr>)"

text \<open>The Cancel button: \<^verbatim>\<open>onClick={() => setClickedPos(null)}\<close>.\<close>

definition cancel :: "app \<Rightarrow> app" where
  "cancel w = w\<lparr>clickedPos := None\<rparr>"

section \<open>The component as an event loop\<close>

text \<open>
  One event is one run of a handler or of the continuation of an asynchronous handler.
  React commits a render of the state the handler leaves, \<open>handle w ev\<close>, and only then
  runs the filter effect when \<^verbatim>\<open>markers\<close> or \<^verbatim>\<open>selectedCountry\<close> changed; the
  effect writes \<^verbatim>\<open>filteredMarkers\<close> and \<^verbatim>\<open>countries\<close>, which gives a second render,
  \<open>step w ev\<close>. In the first of the two renders the displayed list is still the one the
  effect computed before the event. The effect reads only its two dependencies, so
  running it after every event gives the same state as running it after the events that
  changed them. The loop accepts every order of events, also those the page cannot
  produce (a click on a button of the closed form, an answer to a request never sent).
\<close>

datatype event =
    MarkersFetched "pg_error + marker list"
  | FeedInsert marker
  | SelectCountry string
  | MapClick latlng
  | GeocodeSettled geocode_response
  | NameInput string
  | MessageInput string
  | SubmitClick
  | InsertSettled "pg_error option"
  | CancelClick

fun handle :: "app \<Rightarrow> event \<Rightarrow> app" where
  "handle w (MarkersFetched r) = fetchMarkers_resume w r"
| "handle w (FeedInsert m) = on_insert w m"
| "handle w (SelectCountry s) = w\<lparr>selectedCountry := s\<rparr>"
| "handle w (MapClick e) = snd (handleMapClick_start w e)"
| "handle w (GeocodeSettled r) = handleMapClick_resume w r"
| "handle w (NameInput s) = w\<lparr>name := s\<rparr>"
| "handle w (MessageInput s) = w\<lparr>message := s\<rparr>"
| "handle w SubmitClick = snd (handleSubmit_start w)"
| "handle w (InsertSettled error) = handleSubmit_resume w error"
| "handle w CancelClick = cancel w"

definition step :: "app \<Rightarrow> event \<Rightarrow> app" where
  "step w ev = filter_effect (handle w ev)"

definition run :: "app \<Rightarrow> event list \<Rightarrow> app" where
  "run w evs = foldl step w evs"

section \<open>The specification's own wording\<close>

text \<open>
  Visible markers as the specification words them: everything for the selection
  \<^verbatim>\<open>all\<close>, otherwise the markers of the selected country.
\<close>

definition visible_spec :: "marker list \<Rightarrow> string \<Rightarrow> marker list" where
  "visible_spec M s = (if s = ''all'' then M else filter (\<lambda>m. m_country m = Some s) M)"

text \<open>
  First-seen order as a recursion of its own: the first element, then the first-seen
  list of the rest without it.
\<close>

function first_seen :: "'a list \<Rightarrow> 'a list" where
  "first_seen [] = []"
| "first_seen (x # xs) = x # first_seen (filter (\<lambda>y. y \<noteq> x) xs)"
  by pat_completeness auto
termination
  by (relation "measure length") (auto simp: less_Suc_eq_le)

section \<open>Library functions\<close>

lemma js_filter_loop_eq: "js_filter_loop p xs acc = acc @ filter p xs"
  by (induction xs arbitrary: acc) auto

lemma js_filter_eq: "js_filter p xs = filter p xs"
  by (simp add: js_filter_def js_filter_loop_eq)

lemma set_first_seen: "set (first_seen xs) = set xs"
  by (induction xs rule: first_seen.induct) auto

lemma distinct_first_seen: "distinct (first_seen xs)"
  by (induction xs rule: first_seen.induct) (auto simp: set_first_seen)

text \<open>The set under construction is a prefix of the result; the rest is what is new.\<close>

lemma set_add_all_eq:
  "set_add_all xs acc = acc @ first_seen (filter (\<lambda>y. y \<notin> set acc) xs)"
proof (induction xs arbitrary: acc)
  case Nil
  then show ?case by simp
next
  case (Cons x xs)
  show ?case
  proof (cases "x \<in> set acc")
    case True
    then show ?thesis using Cons.IH [of acc] by simp
  next
    case False
    have "filter (\<lambda>y. y \<notin> set (acc @ [x])) xs
          = filter (\<lambda>y. y \<noteq> x) (filter (\<lambda>y. y \<notin> set acc) xs)"
      by (induction xs) auto
    then show ?thesis using False Cons.IH [of "acc @ [x]"] by simp
  qed
qed

lemma spread_new_Set_eq: "spread_new_Set xs = first_seen xs"
  by (simp add: spread_new_Set_def set_add_all_eq)

section \<open>The filter effect\<close>

lemma uniqueCountries_eq:
  "uniqueCountries M = first_seen (filter Boolean_str (map m_country M))"
  by (simp add: uniqueCountries_def spread_new_Set_eq js_filter_eq)

lemma filter_effect_eq:
  "filter_effect w = w\<lparr>countries := uniqueCountries (markers w),
       filteredMarkers := visible_spec (markers w) (selectedCountry w)\<rparr>"
  by (simp add: filter_effect_def visible_spec_def js_filter_eq Let_def)

lemma filter_effect_frame:
  "clickedPos (filter_effect w) = clickedPos w" "country (filter_effect w) = country w"
  "name (filter_effect w) = name w" "message (filter_effect w) = message w"
  "sessionStorage (filter_effect w) = sessionStorage w" "out (filter_effect w) = out w"
  "markers (filter_effect w) = markers w" "selectedCountry (filter_effect w) = selectedCountry w"
  by (simp_all add: filter_effect_eq)

text \<open>
  Running the effect again without a change of its two dependencies changes nothing, and
  the initial state is what the effect computes from it.
\<close>

lemma filter_effect_idem: "filter_effect (filter_effect w) = filter_effect w"
  by (simp add: filter_effect_eq)

lemma filter_effect_init: "filter_effect (init ss) = init ss"
  by (simp add: filter_effect_eq init_def uniqueCountries_def spread_new_Set_def
        js_filter_def visible_spec_def)

section \<open>The event loop\<close>

lemma run_Nil: "run w [] = w"
  by (simp add: run_def)

lemma run_Cons: "run w (ev # evs) = run (step w ev) evs"
  by (simp add: run_def)

lemma run_append: "run w (xs @ ys) = run (run w xs) ys"
  by (simp add: run_def)

lemma run_snoc: "run w (evs @ [ev]) = step (run w evs) ev"
  by (simp add: run_def)

lemma step_visible:
  "filteredMarkers (step w ev) = visible_spec (markers (step w ev)) (selectedCountry (step w ev))"
  by (simp add: step_def filter_effect_eq)

lemma run_init_visible:
  "filteredMarkers (run (init ss) evs)
     = visible_spec (markers (run (init ss) evs)) (selectedCountry (run (init ss) evs))"
proof (cases evs rule: rev_cases)
  case Nil
  then show ?thesis by (simp add: run_Nil init_def visible_spec_def)
next
  case (snoc evs' ev)
  then show ?thesis by (simp add: run_snoc step_visible)
qed

text \<open>No handler writes \<^verbatim>\<open>filteredMarkers\<close>: only the effect calls its setter.\<close>

lemma filteredMarkers_handle: "filteredMarkers (handle w ev) = filteredMarkers w"
  by (cases ev)
     (auto simp: fetchMarkers_resume_def on_insert_def handleMapClick_start_def
        handleMapClick_resume_def handleSubmit_start_def handleSubmit_resume_def cancel_def
        split: sum.splits option.splits)

lemma markers_step_insert: "markers (step w (FeedInsert m)) = markers w @ [m]"
  by (simp add: step_def filter_effect_frame on_insert_def)

section \<open>The placement guard\<close>

lemma hasPlacedMark_filter_effect: "hasPlacedMark (filter_effect w) = hasPlacedMark w"
  by (simp add: filter_effect_frame hasPlacedMark_def)

text \<open>No handler removes the key: \<^verbatim>\<open>setItem\<close> is the only access that writes.\<close>

lemma hasPlacedMark_handle: "hasPlacedMark w \<Longrightarrow> hasPlacedMark (handle w ev)"
  by (cases ev)
     (auto simp: hasPlacedMark_def fetchMarkers_resume_def on_insert_def
        handleMapClick_start_def handleMapClick_resume_def handleSubmit_start_def
        handleSubmit_resume_def cancel_def split: sum.splits option.splits)

lemma hasPlacedMark_step: "hasPlacedMark w \<Longrightarrow> hasPlacedMark (step w ev)"
  by (simp add: step_def hasPlacedMark_filter_effect hasPlacedMark_handle)

lemma hasPlacedMark_run: "hasPlacedMark w \<Longrightarrow> hasPlacedMark (run w evs)"
  by (induction evs arbitrary: w) (simp_all add: run_Nil run_Cons hasPlacedMark_step)

lemma hasPlacedMark_success: "hasPlacedMark (handleSubmit_resume w None)"
  by (simp add: handleSubmit_resume_def hasPlacedMark_def)

lemma handleMapClick_refused:
  "hasPlacedMark w \<Longrightarrow> handleMapClick_start w e =
     (ClickRefused, w\<lparr>out := out w @ [Alert ''You already placed a mark in this session'']\<rparr>)"
  by (simp add: handleMapClick_start_def)

section \<open>Claims about the country filter and the feed\<close>

text \<open>
  C1. Once the filter effect has run on the current marker list and selection, the
  displayed list is the whole marker list when the selection is \<^verbatim>\<open>all\<close>, and
  otherwise the markers whose country is the selection, in the order of the marker list;
  it is then a subsequence of the marker list. This holds in the initial state and after
  the effect of every event. In the render committed between a handler and the effect,
  the displayed list is the one of before the event: no handler writes it, the effect
  alone does.
\<close>

theorem filter_effect_visible:
  "(selectedCountry w = ''all'' \<longrightarrow> filteredMarkers (filter_effect w) = markers w)
   \<and> (selectedCountry w \<noteq> ''all'' \<longrightarrow>
        filteredMarkers (filter_effect w)
          = filter (\<lambda>m. m_country m = Some (selectedCountry w)) (markers w))
   \<and> subseq (filteredMarkers (filter_effect w)) (markers w)
   \<and> set (filteredMarkers (filter_effect w)) \<subseteq> set (markers w)
   \<and> filteredMarkers (run (init ss) evs)
        = visible_spec (markers (run (init ss) evs)) (selectedCountry (run (init ss) evs))
   \<and> filteredMarkers (handle w ev) = filteredMarkers w
   \<and> filteredMarkers (step w ev)
        = visible_spec (markers (handle w ev)) (selectedCountry (handle w ev))"
proof -
  have "filteredMarkers (filter_effect v) = visible_spec (markers v) (selectedCountry v)" for v
    by (simp add: filter_effect_eq)
  from this [of w] this [of "handle w ev"] show ?thesis
    using run_init_visible [of ss evs] filteredMarkers_handle [of w ev]
    by (auto simp: visible_spec_def step_def)
qed

theorem filter_effect_visible_witness:
  "filteredMarkers (filter_effect ((init Map.empty)
      \<lparr>markers := [\<lparr>m_id = 1, m_lat = 10, m_lng = 20, m_name = ''Ann'', m_message = ''Hi'',
                     m_country = Some ''Peru''\<rparr>,
                    \<lparr>m_id = 2, m_lat = 48, m_lng = 2, m_name = ''Bob'', m_message = ''Yo'',
                     m_country = Some ''France''\<rparr>,
                    \<lparr>m_id = 3, m_lat = -12, m_lng = -77, m_name = ''Cy'', m_message = ''Ok'',
                     m_country = Some ''Peru''\<rparr>],
        selectedCountry := ''Peru''\<rparr>))
   = [\<lparr>m_id = 1, m_lat = 10, m_lng = 20, m_name = ''Ann'', m_message = ''Hi'',
        m_country = Some ''Peru''\<rparr>,
      \<lparr>m_id = 3, m_lat = -12, m_lng = -77, m_name = ''Cy'', m_message = ''Ok'',
        m_country = Some ''Peru''\<rparr>]
   \<and> filteredMarkers (filter_effect ((init Map.empty)
      \<lparr>markers := [\<lparr>m_id = 1, m_lat = 10, m_lng = 20, m_name = ''Ann'', m_message = ''Hi'',
                     m_country = Some ''Peru''\<rparr>]\<rparr>))
   = [\<lparr>m_id = 1, m_lat = 10, m_lng = 20, m_name = ''Ann'', m_message = ''Hi'',
        m_country = Some ''Peru''\<rparr>]"
  using filter_effect_visible [of "(init Map.empty)
      \<lparr>markers := [\<lparr>m_id = 1, m_lat = 10, m_lng = 20, m_name = ''Ann'', m_message = ''Hi'',
                     m_country = Some ''Peru''\<rparr>,
                    \<lparr>m_id = 2, m_lat = 48, m_lng = 2, m_name = ''Bob'', m_message = ''Yo'',
                     m_country = Some ''France''\<rparr>,
                    \<lparr>m_id = 3, m_lat = -12, m_lng = -77, m_name = ''Cy'', m_message = ''Ok'',
                     m_country = Some ''Peru''\<rparr>],
        selectedCountry := ''Peru''\<rparr>" Map.empty "[]"]
    filter_effect_visible [of "(init Map.empty)
      \<lparr>markers := [\<lparr>m_id = 1, m_lat = 10, m_lng = 20, m_name = ''Ann'', m_message = ''Hi'',
                     m_country = Some ''Peru''\<rparr>]\<rparr>" Map.empty "[]"]
  by (simp add: init_def)

text \<open>
  The claim as written fails in the render committed before the effect. A feed insert in
  the initial state leaves one marker in the marker list and none displayed, under the
  selection \<^verbatim>\<open>all\<close>. When the initial load then answers with another row, the marker
  list is that row and the displayed list still the first one, which is no subset of it.
\<close>

theorem displayed_list_stale_before_effect:
  "selectedCountry (on_insert (init Map.empty)
       \<lparr>m_id = 1, m_lat = 10, m_lng = 20, m_name = ''Ann'', m_message = ''Hi'',
         m_country = Some ''Peru''\<rparr>) = ''all''
   \<and> markers (on_insert (init Map.empty)
       \<lparr>m_id = 1, m_lat = 10, m_lng = 20, m_name = ''Ann'', m_message = ''Hi'',
         m_country = Some ''Peru''\<rparr>)
      = [\<lparr>m_id = 1, m_lat = 10, m_lng = 20, m_name = ''Ann'', m_message = ''Hi'',
           m_country = Some ''Peru''\<rparr>]
   \<and> filteredMarkers (on_insert (init Map.empty)
       \<lparr>m_id = 1, m_lat = 10, m_lng = 20, m_name = ''Ann'', m_message = ''Hi'',
         m_country = Some ''Peru''\<rparr>) = []
   \<and> filteredMarkers (on_insert (init Map.empty)
       \<lparr>m_id = 1, m_lat = 10, m_lng = 20, m_name = ''Ann'', m_message = ''Hi'',
         m_country = Some ''Peru''\<rparr>)
      \<noteq> markers (on_insert (init Map.empty)
       \<lparr>m_id = 1, m_lat = 10, m_lng = 20, m_name = ''Ann'', m_message = ''Hi'',
         m_country = Some ''Peru''\<rparr>)
   \<and> markers (fetchMarkers_resume (filter_effect (on_insert (init Map.empty)
       \<lparr>m_id = 1, m_lat = 10, m_lng = 20, m_name = ''Ann'', m_message = ''Hi'',
         m_country = Some ''Peru''\<rparr>))
       (Inr [\<lparr>m_id = 2, m_lat = 48, m_lng = 2, m_name = ''Bob'', m_message = ''Yo'',
               m_country = Some ''France''\<rparr>]))
      = [\<lparr>m_id = 2, m_lat = 48, m_lng = 2, m_name = ''Bob'', m_message = ''Yo'',
           m_country = Some ''France''\<rparr>]
   \<and> filteredMarkers (fetchMarkers_resume (filter_effect (on_insert (init Map.empty)
       \<lparr>m_id = 1, m_lat = 10, m_lng = 20, m_name = ''Ann'', m_message = ''Hi'',
         m_country = Some ''Peru''\<rparr>))
       (Inr [\<lparr>m_id = 2, m_lat = 48, m_lng = 2, m_name = ''Bob'', m_message = ''Yo'',
               m_country = Some ''France''\<rparr>]))
      = [\<lparr>m_id = 1, m_lat = 10, m_lng = 20, m_name = ''Ann'', m_message = ''Hi'',
           m_country = Some ''Peru''\<rparr>]
   \<and> \<not> set (filteredMarkers (fetchMarkers_resume (filter_effect (on_insert (init Map.empty)
       \<lparr>m_id = 1, m_lat = 10, m_lng = 20, m_name = ''Ann'', m_message = ''Hi'',
         m_country = Some ''Peru''\<rparr>))
       (Inr [\<lparr>m_id = 2, m_lat = 48, m_lng = 2, m_name = ''Bob'', m_message = ''Yo'',
               m_country = Some ''France''\<rparr>])))
      \<subseteq> set (markers (fetchMarkers_resume (filter_effect (on_insert (init Map.empty)
       \<lparr>m_id = 1, m_lat = 10, m_lng = 20, m_name = ''Ann'', m_message = ''Hi'',
         m_country = Some ''Peru''\<rparr>))
       (Inr [\<lparr>m_id = 2, m_lat = 48, m_lng = 2, m_name = ''Bob'', m_message = ''Yo'',
               m_country = Some ''France''\<rparr>])))"
  by (simp add: on_insert_def fetchMarkers_resume_def filter_effect_eq visible_spec_def
        init_def)

text \<open>
  C9. The list of distinct countries holds neither an undefined nor an empty value, holds
  no value twice, holds exactly the non-empty countries of the markers, and lists them in
  the order in which they first occur in the marker list. The filter effect stores this
  list in \<^verbatim>\<open>countries\<close>.
\<close>

theorem uniqueCountries_first_seen:
  "None \<notin> set (uniqueCountries M) \<and> Some '''' \<notin> set (uniqueCountries M)
   \<and> distinct (uniqueCountries M)
   \<and> set (uniqueCountries M) = {c \<in> m_country ` set M. c \<noteq> None \<and> c \<noteq> Some ''''}
   \<and> uniqueCountries M = first_seen (filter Boolean_str (map m_country M))
   \<and> countries (filter_effect w) = uniqueCountries (markers w)"
proof -
  have eq: "uniqueCountries M = first_seen (filter Boolean_str (map m_country M))"
    by (rule uniqueCountries_eq)
  have B: "Boolean_str c \<longleftrightarrow> c \<noteq> None \<and> c \<noteq> Some ''''" for c
    by (cases c) auto
  have s: "set (uniqueCountries M) = {c \<in> m_country ` set M. c \<noteq> None \<and> c \<noteq> Some ''''}"
    by (auto simp: eq set_first_seen B)
  have d: "distinct (uniqueCountries M)"
    by (simp add: eq distinct_first_seen)
  have c: "countries (filter_effect w) = uniqueCountries (markers w)"
    by (simp add: filter_effect_eq)
  from s have n: "None \<notin> set (uniqueCountries M)" and e: "Some '''' \<notin> set (uniqueCountries M)"
    by auto
  from n e d eq s c show ?thesis by blast
qed

theorem uniqueCountries_first_seen_witness:
  "uniqueCountries
     [\<lparr>m_id = 1, m_lat = 10, m_lng = 20, m_name = ''Ann'', m_message = ''Hi'',
        m_country = Some ''Peru''\<rparr>,
      \<lparr>m_id = 2, m_lat = 0, m_lng = 0, m_name = ''Dee'', m_message = ''Sea'',
        m_country = None\<rparr>,
      \<lparr>m_id = 3, m_lat = 48, m_lng = 2, m_name = ''Bob'', m_message = ''Yo'',
        m_country = Some ''France''\<rparr>,
      \<lparr>m_id = 4, m_lat = 1, m_lng = 1, m_name = ''Eve'', m_message = ''Gulf'',
        m_country = Some ''''\<rparr>,
      \<lparr>m_id = 5, m_lat = -12, m_lng = -77, m_name = ''Cy'', m_message = ''Ok'',
        m_country = Some ''Peru''\<rparr>]
   = [Some ''Peru'', Some ''France'']"
  using uniqueCountries_first_seen [of
     "[\<lparr>m_id = 1, m_lat = 10, m_lng = 20, m_name = ''Ann'', m_message = ''Hi'',
        m_country = Some ''Peru''\<rparr>,
      \<lparr>m_id = 2, m_lat = 0, m_lng = 0, m_name = ''Dee'', m_message = ''Sea'',
        m_country = None\<rparr>,
      \<lparr>m_id = 3, m_lat = 48, m_lng = 2, m_name = ''Bob'', m_message = ''Yo'',
        m_country = Some ''France''\<rparr>,
      \<lparr>m_id = 4, m_lat = 1, m_lng = 1, m_name = ''Eve'', m_message = ''Gulf'',
        m_country = Some ''''\<rparr>,
      \<lparr>m_id = 5, m_lat = -12, m_lng = -77, m_name = ''Cy'', m_message = ''Ok'',
        m_country = Some ''Peru''\<rparr>]" "init Map.empty"]
  by simp

text \<open>
  C10. The feed callback appends the received row to the marker list, whatever the row
  and whatever the list holds already: after any sequence of insert events the marker list
  is the old list followed by the received rows in the order of arrival, one entry for
  each event, and the same row received twice is stored twice.
\<close>

theorem feed_insert_appends:
  "markers (run w (map FeedInsert ms)) = markers w @ ms
   \<and> length (markers (run w (map FeedInsert ms))) = length (markers w) + length ms
   \<and> markers (on_insert w m) = markers w @ [m]
   \<and> markers (run w [FeedInsert m, FeedInsert m]) = markers w @ [m, m]"
proof -
  have "markers (run v (map FeedInsert xs)) = markers v @ xs" for v xs
    by (induction xs arbitrary: v) (simp_all add: run_Nil run_Cons markers_step_insert)
  from this [of w ms] this [of w "[m, m]"] show ?thesis
    by (simp add: on_insert_def)
qed

theorem feed_insert_appends_witness:
  "markers (run ((init Map.empty)
       \<lparr>markers := [\<lparr>m_id = 7, m_lat = 10, m_lng = 20, m_name = ''Ann'', m_message = ''Hi'',
                      m_country = Some ''Peru''\<rparr>]\<rparr>)
     [FeedInsert \<lparr>m_id = 7, m_lat = 10, m_lng = 20, m_name = ''Ann'', m_message = ''Hi'',
                   m_country = Some ''Peru''\<rparr>,
      FeedInsert \<lparr>m_id = 7, m_lat = 10, m_lng = 20, m_name = ''Ann'', m_message = ''Hi'',
                   m_country = Some ''Peru''\<rparr>])
   = [\<lparr>m_id = 7, m_lat = 10, m_lng = 20, m_name = ''Ann'', m_message = ''Hi'',
        m_country = Some ''Peru''\<rparr>,
      \<lparr>m_id = 7, m_lat = 10, m_lng = 20, m_name = ''Ann'', m_message = ''Hi'',
        m_country = Some ''Peru''\<rparr>,
      \<lparr>m_id = 7, m_lat = 10, m_lng = 20, m_name = ''Ann'', m_message = ''Hi'',
        m_country = Some ''Peru''\<rparr>]"
  using feed_insert_appends [of "(init Map.empty)
       \<lparr>markers := [\<lparr>m_id = 7, m_lat = 10, m_lng = 20, m_name = ''Ann'', m_message = ''Hi'',
                      m_country = Some ''Peru''\<rparr>]\<rparr>"
     "[\<lparr>m_id = 7, m_lat = 10, m_lng = 20, m_name = ''Ann'', m_message = ''Hi'',
        m_country = Some ''Peru''\<rparr>]"
     "\<lparr>m_id = 7, m_lat = 10, m_lng = 20, m_name = ''Ann'', m_message = ''Hi'',
        m_country = Some ''Peru''\<rparr>"]
  by (simp add: init_def)

section \<open>Claims about the placement flow\<close>

text \<open>
  C2. In every session in which a submit has succeeded (the insert answered without
  error), whatever happened before and whatever happens afterwards, a map click is
  refused: the handler returns at its guard, the only thing it does is the alert, so it
  sends no reverse-geocode request and no insert, and it changes no state.
\<close>

theorem placement_refused_after_success:
  "hasPlacedMark (run w (before @ InsertSettled None # after))
   \<and> handleMapClick_start (run w (before @ InsertSettled None # after)) e =
       (ClickRefused,
        (run w (before @ InsertSettled None # after))
          \<lparr>out := out (run w (before @ InsertSettled None # after))
                   @ [Alert ''You already placed a mark in this session'']\<rparr>)"
proof -
  have "hasPlacedMark (step (run w before) (InsertSettled None))"
    by (simp add: step_def hasPlacedMark_filter_effect hasPlacedMark_success)
  then have "hasPlacedMark (run w (before @ InsertSettled None # after))"
    by (simp add: run_append run_Cons hasPlacedMark_run)
  then show ?thesis
    by (simp add: handleMapClick_refused)
qed

theorem placement_refused_after_success_witness:
  "fst (handleMapClick_start
     (run (init Map.empty)
        ([MapClick \<lparr>lat = 10, lng = 20\<rparr>,
          GeocodeSettled (JsonBody (JObj [(''address'', JObj [(''country'', JStr ''Wakanda'')])])),
          NameInput ''Ann'', MessageInput ''Hi'', SubmitClick]
         @ InsertSettled None # [SelectCountry ''Wakanda'']))
     \<lparr>lat = 30, lng = 40\<rparr>) = ClickRefused"
  using placement_refused_after_success [of "init Map.empty"
        "[MapClick \<lparr>lat = 10, lng = 20\<rparr>,
          GeocodeSettled (JsonBody (JObj [(''address'', JObj [(''country'', JStr ''Wakanda'')])])),
          NameInput ''Ann'', MessageInput ''Hi'', SubmitClick]"
        "[SelectCountry ''Wakanda'']" "\<lparr>lat = 30, lng = 40\<rparr>"]
  by simp

text \<open>
  C3. When the name or the message is empty, submit shows the alert
  \<^verbatim>\<open>Name and message required\<close> and does nothing else: no insert is sent, the session
  storage is untouched, and the pending coordinate, name, message and country keep their
  values.
\<close>

theorem submit_empty_rejected:
  assumes "name w = '''' \<or> message w = ''''"
  shows "handleSubmit_start w =
           (SubmitInvalid, w\<lparr>out := out w @ [Alert ''Name and message required'']\<rparr>)
         \<and> hasPlacedMark (snd (handleSubmit_start w)) = hasPlacedMark w
         \<and> out (step w SubmitClick) = out w @ [Alert ''Name and message required'']
         \<and> sessionStorage (step w SubmitClick) = sessionStorage w
         \<and> clickedPos (step w SubmitClick) = clickedPos w
         \<and> name (step w SubmitClick) = name w
         \<and> message (step w SubmitClick) = message w
         \<and> country (step w SubmitClick) = country w"
  using assms
  by (auto simp: handleSubmit_start_def hasPlacedMark_def step_def filter_effect_frame)

theorem submit_empty_rejected_witness:
  "message ((init Map.empty)\<lparr>clickedPos := Some \<lparr>lat = 10, lng = 20\<rparr>, name := ''Ann''\<rparr>) = ''''
   \<and> handleSubmit_start
       ((init Map.empty)\<lparr>clickedPos := Some \<lparr>lat = 10, lng = 20\<rparr>, name := ''Ann''\<rparr>)
     = (SubmitInvalid,
        (init Map.empty)\<lparr>clickedPos := Some \<lparr>lat = 10, lng = 20\<rparr>, name := ''Ann'',
                          out := [Alert ''Name and message required'']\<rparr>)"
  using submit_empty_rejected
    [of "(init Map.empty)\<lparr>clickedPos := Some \<lparr>lat = 10, lng = 20\<rparr>, name := ''Ann''\<rparr>"]
  by (simp add: init_def)

text \<open>
  C4. A submit that passes the guard sends one insert with the pending coordinate, name,
  message and country. When the insert answers with an error, the error is written to the
  console and the alert \<^verbatim>\<open>Insert failed\<close> is shown; nothing else changes: the session
  storage, the pending coordinate, name, message and country are as before the submit,
  the form is still open, and a further submit sends the insert again. The continuation
  changes nothing but the output in whatever state it resumes.
\<close>

theorem submit_write_failure_keeps_form:
  assumes "name w \<noteq> ''''" and "message w \<noteq> ''''" and "clickedPos w = Some p"
  shows "handleSubmit_start w =
           (SubmitAwaitingInsert,
            w\<lparr>out := out w @ [InsertRow \<lparr>ins_lat = lat p, ins_lng = lng p, ins_name = name w,
                                          ins_message = message w, ins_country = country w\<rparr>]\<rparr>)
         \<and> handleSubmit_resume (snd (handleSubmit_start w)) (Some err) =
             w\<lparr>out := out w @ [InsertRow \<lparr>ins_lat = lat p, ins_lng = lng p, ins_name = name w,
                                           ins_message = message w, ins_country = country w\<rparr>,
                                ConsoleError err, Alert ''Insert failed'']\<rparr>
         \<and> hasPlacedMark (handleSubmit_resume (snd (handleSubmit_start w)) (Some err))
             = hasPlacedMark w
         \<and> modal_open (handleSubmit_resume (snd (handleSubmit_start w)) (Some err))
         \<and> fst (handleSubmit_start (handleSubmit_resume (snd (handleSubmit_start w)) (Some err)))
             = SubmitAwaitingInsert
         \<and> handleSubmit_resume v (Some err)
             = v\<lparr>out := out v @ [ConsoleError err, Alert ''Insert failed'']\<rparr>"
  using assms
  by (simp add: handleSubmit_start_def handleSubmit_resume_def hasPlacedMark_def modal_open_def)

theorem submit_write_failure_keeps_form_witness:
  "handleSubmit_resume (snd (handleSubmit_start
       ((init Map.empty)\<lparr>clickedPos := Some \<lparr>lat = 10, lng = 20\<rparr>, country := JStr ''Wakanda'',
                         name := ''Ann'', message := ''Hi''\<rparr>))) (Some ''timeout'')
   = (init Map.empty)\<lparr>clickedPos := Some \<lparr>lat = 10, lng = 20\<rparr>, country := JStr ''Wakanda'',
                       name := ''Ann'', message := ''Hi'',
                       out := [InsertRow \<lparr>ins_lat = 10, ins_lng = 20, ins_name = ''Ann'',
                                          ins_message = ''Hi'', ins_country = JStr ''Wakanda''\<rparr>,
                               ConsoleError ''timeout'', Alert ''Insert failed'']\<rparr>"
  using submit_write_failure_keeps_form
    [of "(init Map.empty)\<lparr>clickedPos := Some \<lparr>lat = 10, lng = 20\<rparr>, country := JStr ''Wakanda'',
                          name := ''Ann'', message := ''Hi''\<rparr>"
        "\<lparr>lat = 10, lng = 20\<rparr>" "''timeout''" "init Map.empty"]
  by (simp add: init_def handleSubmit_start_def handleSubmit_resume_def)

text \<open>
  C5. When the insert answers without error, the continuation of submit stores
  \<^verbatim>\<open>hasPlacedMark\<close> in the session storage, sets name and message to the empty string
  and the pending coordinate to null, so the form is closed. It shows no alert and sends
  nothing. The read-only country keeps its value.
\<close>

theorem submit_write_success_closes_form:
  "hasPlacedMark (handleSubmit_resume w None)
   \<and> sessionStorage (handleSubmit_resume w None) ''hasPlacedMark'' = Some ''true''
   \<and> name (handleSubmit_resume w None) = ''''
   \<and> message (handleSubmit_resume w None) = ''''
   \<and> clickedPos (handleSubmit_resume w None) = None
   \<and> \<not> modal_open (handleSubmit_resume w None)
   \<and> country (handleSubmit_resume w None) = country w
   \<and> out (handleSubmit_resume w None) = out w
   \<and> markers (handleSubmit_resume w None) = markers w
   \<and> \<not> modal_open (step w (InsertSettled None))
   \<and> hasPlacedMark (step w (InsertSettled None))"
  by (simp add: handleSubmit_resume_def hasPlacedMark_def modal_open_def step_def
        filter_effect_frame)

theorem submit_write_success_closes_form_witness:
  "handleSubmit_resume (snd (handleSubmit_start
       ((init Map.empty)\<lparr>clickedPos := Some \<lparr>lat = 10, lng = 20\<rparr>, country := JStr ''Wakanda'',
                         name := ''Ann'', message := ''Hi''\<rparr>))) None
   = (init [''hasPlacedMark'' \<mapsto> ''true''])
       \<lparr>country := JStr ''Wakanda'',
        out := [InsertRow \<lparr>ins_lat = 10, ins_lng = 20, ins_name = ''Ann'',
                           ins_message = ''Hi'', ins_country = JStr ''Wakanda''\<rparr>]\<rparr>"
  using submit_write_success_closes_form [of "snd (handleSubmit_start
       ((init Map.empty)\<lparr>clickedPos := Some \<lparr>lat = 10, lng = 20\<rparr>, country := JStr ''Wakanda'',
                         name := ''Ann'', message := ''Hi''\<rparr>))"]
  by (simp add: init_def handleSubmit_start_def handleSubmit_resume_def)

text \<open>
  C6. The continuation of the map click sets \<^verbatim>\<open>country\<close> and nothing else. When the
  request or the parsing of its body fails, or the body has no value at
  \<^verbatim>\<open>address.country\<close>, or the value there is falsy (the empty string, null, zero,
  false), the country is the string \<^verbatim>\<open>Unknown\<close>; when the value there is truthy, the
  country is that value. The pending coordinate is untouched, so the form that the click
  opened is open afterwards.
\<close>

theorem geocode_country_truthy_or_unknown:
  "(r = FetchRejected \<or> r = JsonRejected \<longrightarrow>
      country (handleMapClick_resume w r) = JStr ''Unknown'')
   \<and> (address_country data = None \<longrightarrow>
      country (handleMapClick_resume w (JsonBody data)) = JStr ''Unknown'')
   \<and> (address_country data = Some v \<and> Boolean_json (Some v) \<longrightarrow>
      country (handleMapClick_resume w (JsonBody data)) = v)
   \<and> (address_country data = Some v \<and> \<not> Boolean_json (Some v) \<longrightarrow>
      country (handleMapClick_resume w (JsonBody data)) = JStr ''Unknown'')
   \<and> handleMapClick_resume w r = w\<lparr>country := country (handleMapClick_resume w r)\<rparr>
   \<and> modal_open (handleMapClick_resume w r) = modal_open w
   \<and> (\<not> hasPlacedMark w \<longrightarrow>
        modal_open (handleMapClick_resume (snd (handleMapClick_start w e)) r))"
  by (auto simp: handleMapClick_resume_def resolved_country_def js_or_def modal_open_def
        handleMapClick_start_def)

theorem geocode_country_truthy_or_unknown_witness:
  "country (handleMapClick_resume (init Map.empty) FetchRejected) = JStr ''Unknown''
   \<and> address_country (JObj [(''error'', JStr ''Unable to geocode'')]) = None
   \<and> country (handleMapClick_resume (init Map.empty)
        (JsonBody (JObj [(''error'', JStr ''Unable to geocode'')]))) = JStr ''Unknown''
   \<and> address_country (JObj [(''address'', JObj [(''country'', JStr ''Wakanda'')])])
        = Some (JStr ''Wakanda'')
   \<and> Boolean_json (Some (JStr ''Wakanda''))
   \<and> country (handleMapClick_resume (init Map.empty)
        (JsonBody (JObj [(''address'', JObj [(''country'', JStr ''Wakanda'')])]))) = JStr ''Wakanda''
   \<and> address_country (JObj [(''address'', JObj [(''country'', JNull)])]) = Some JNull
   \<and> \<not> Boolean_json (Some JNull)
   \<and> country (handleMapClick_resume (init Map.empty)
        (JsonBody (JObj [(''address'', JObj [(''country'', JNull)])]))) = JStr ''Unknown''
   \<and> \<not> hasPlacedMark (init Map.empty)
   \<and> modal_open (handleMapClick_resume
        (snd (handleMapClick_start (init Map.empty) \<lparr>lat = 10, lng = 20\<rparr>)) FetchRejected)"
  using
    geocode_country_truthy_or_unknown [of FetchRejected "init Map.empty"
      "JObj [(''error'', JStr ''Unable to geocode'')]" JNull "\<lparr>lat = 10, lng = 20\<rparr>"]
    geocode_country_truthy_or_unknown [of FetchRejected "init Map.empty"
      "JObj [(''address'', JObj [(''country'', JStr ''Wakanda'')])]" "JStr ''Wakanda''"
      "\<lparr>lat = 10, lng = 20\<rparr>"]
    geocode_country_truthy_or_unknown [of FetchRejected "init Map.empty"
      "JObj [(''address'', JObj [(''country'', JNull)])]" JNull "\<lparr>lat = 10, lng = 20\<rparr>"]
  by (simp add: address_country_def hasPlacedMark_def init_def)

text \<open>
  The claim as written fails where the body has the empty string at
  \<^verbatim>\<open>address.country\<close>: the value resolved there is the empty string, the country set is
  \<^verbatim>\<open>Unknown\<close>.
\<close>

theorem geocode_empty_country_counterexample:
  "address_country (JObj [(''address'', JObj [(''country'', JStr '''')])]) = Some (JStr '''')
   \<and> country (handleMapClick_resume (init Map.empty)
        (JsonBody (JObj [(''address'', JObj [(''country'', JStr '''')])]))) = JStr ''Unknown''
   \<and> country (handleMapClick_resume (init Map.empty)
        (JsonBody (JObj [(''address'', JObj [(''country'', JStr '''')])]))) \<noteq> JStr ''''"
  by (simp add: address_country_def handleMapClick_resume_def resolved_country_def js_or_def)

text \<open>
  C7. A map click that passes the guard records the clicked coordinate and sends the
  reverse-geocode request, and is then left waiting for the answer. The form is open from
  that moment, while the lookup is pending, and shows the country of before the click
  until the lookup settles. No event other than a map click that passes the guard opens a
  closed form, and the settling of the lookup neither opens nor closes it.
\<close>

theorem form_opens_at_click:
  "(\<not> hasPlacedMark w \<longrightarrow>
      handleMapClick_start w e =
        (ClickAwaitingGeocode,
         w\<lparr>clickedPos := Some \<lparr>lat = lat e, lng = lng e\<rparr>,
           out := out w @ [ReverseGeocode (lat e) (lng e)]\<rparr>)
      \<and> modal_open (snd (handleMapClick_start w e))
      \<and> country (snd (handleMapClick_start w e)) = country w)
   \<and> (\<not> modal_open w \<and> modal_open (step w ev) \<longrightarrow>
        (\<exists>e'. ev = MapClick e') \<and> \<not> hasPlacedMark w)
   \<and> modal_open (step w (GeocodeSettled r)) = modal_open w"
  by (cases ev)
     (auto simp: handleMapClick_start_def modal_open_def step_def filter_effect_frame
        fetchMarkers_resume_def on_insert_def handleMapClick_resume_def handleSubmit_start_def
        handleSubmit_resume_def cancel_def split: sum.splits option.splits if_splits)

theorem form_opens_at_click_witness:
  "\<not> hasPlacedMark (init Map.empty)
   \<and> handleMapClick_start (init Map.empty) \<lparr>lat = 10, lng = 20\<rparr> =
       (ClickAwaitingGeocode,
        (init Map.empty)\<lparr>clickedPos := Some \<lparr>lat = 10, lng = 20\<rparr>,
                          out := [ReverseGeocode 10 20]\<rparr>)
   \<and> \<not> modal_open (init Map.empty)
   \<and> modal_open (step (init Map.empty) (MapClick \<lparr>lat = 10, lng = 20\<rparr>))"
  using form_opens_at_click [of "init Map.empty" "\<lparr>lat = 10, lng = 20\<rparr>"
      "MapClick \<lparr>lat = 10, lng = 20\<rparr>" FetchRejected]
  by (simp add: hasPlacedMark_def modal_open_def init_def handleMapClick_start_def step_def
        filter_effect_frame)

text \<open>
  The claim as written fails at the first click of a session: the handler is waiting for
  the lookup and the render condition of the form holds already.
\<close>

theorem form_open_while_geocode_pending:
  "fst (handleMapClick_start (init Map.empty) \<lparr>lat = 10, lng = 20\<rparr>) = ClickAwaitingGeocode
   \<and> modal_open (snd (handleMapClick_start (init Map.empty) \<lparr>lat = 10, lng = 20\<rparr>))"
  by (simp add: handleMapClick_start_def hasPlacedMark_def init_def modal_open_def)

text \<open>
  C8. Cancel on an open form sets the pending coordinate to null, which closes the form,
  and changes nothing else: name, message and country keep their values, nothing is sent
  to the remote store, the session storage and with it the placement flag are untouched,
  and the marker list is unchanged.
\<close>

theorem cancel_closes_form_only:
  assumes "modal_open w"
  shows "cancel w = w\<lparr>clickedPos := None\<rparr>
     \<and> \<not> modal_open (cancel w)
     \<and> name (cancel w) = name w \<and> message (cancel w) = message w
     \<and> country (cancel w) = country w
     \<and> out (cancel w) = out w
     \<and> sessionStorage (cancel w) = sessionStorage w
     \<and> hasPlacedMark (cancel w) = hasPlacedMark w
     \<and> markers (cancel w) = markers w
     \<and> \<not> modal_open (step w CancelClick)
     \<and> out (step w CancelClick) = out w
     \<and> markers (step w CancelClick) = markers w
     \<and> hasPlacedMark (step w CancelClick) = hasPlacedMark w"
  by (simp add: cancel_def modal_open_def hasPlacedMark_def step_def filter_effect_frame)

theorem cancel_closes_form_only_witness:
  "modal_open ((init Map.empty)\<lparr>clickedPos := Some \<lparr>lat = 10, lng = 20\<rparr>,
                                 country := JStr ''Wakanda'', name := ''Ann'', message := ''Hi''\<rparr>)
   \<and> cancel ((init Map.empty)\<lparr>clickedPos := Some \<lparr>lat = 10, lng = 20\<rparr>,
                              country := JStr ''Wakanda'', name := ''Ann'', message := ''Hi''\<rparr>)
     = (init Map.empty)\<lparr>country := JStr ''Wakanda'', name := ''Ann'', message := ''Hi''\<rparr>"
  using cancel_closes_form_only
    [of "(init Map.empty)\<lparr>clickedPos := Some \<lparr>lat = 10, lng = 20\<rparr>,
                          country := JStr ''Wakanda'', name := ''Ann'', message := ''Hi''\<rparr>"]
  by (simp add: modal_open_def init_def)

text \<open>
  The claim as written fails on any form with text in it: after cancel the name and the
  message are still there.
\<close>

theorem cancel_keeps_name_and_message:
  "modal_open ((init Map.empty)\<lparr>clickedPos := Some \<lparr>lat = 10, lng = 20\<rparr>,
                                 name := ''Ann'', message := ''Hi''\<rparr>)
   \<and> name (cancel ((init Map.empty)\<lparr>clickedPos := Some \<lparr>lat = 10, lng = 20\<rparr>,
                                    name := ''Ann'', message := ''Hi''\<rparr>)) = ''Ann''
   \<and> message (cancel ((init Map.empty)\<lparr>clickedPos := Some \<lparr>lat = 10, lng = 20\<rparr>,
                                       name := ''Ann'', message := ''Hi''\<rparr>)) = ''Hi''
   \<and> name (cancel ((init Map.empty)\<lparr>clickedPos := Some \<lparr>lat = 10, lng = 20\<rparr>,
                                    name := ''Ann'', message := ''Hi''\<rparr>)) \<noteq> ''''"
  by (simp add: cancel_def modal_open_def init_def)

end
